theory Spec2Isabelle
  imports Main
begin

section \<open>JavaScript values\<close>

text \<open>
  The sources are JavaScript. The values they handle are modelled by one datatype of
  JSON-like data: the primitives, arrays and plain objects (property lists, the first
  binding of a name being the property). Numbers are the integers and the three
  non-finite doubles; fractions are outside the model. Functions, symbols and objects
  with accessors or a \<open>toString\<close> of their own are outside it as well, so reading a
  property and coercing to a string never run user code.
\<close>

datatype jsnum = Fin int | NaN | PosInfinity | NegInfinity

datatype jsval =
    JUndefined
  | JNull
  | JBool bool
  | JNum jsnum
  | JStr string
  | JArr "jsval list"
  | JObj "(string \<times> jsval) list"

text \<open>What a raise, a rejected promise or a failed request carries.\<close>

datatype error = TypeError | ReferenceError | SyntaxError | NetworkError | InvariantViolation

subsection \<open>Coercion to string\<close>

text \<open>
  An integer is written in decimal, as JavaScript writes the integers below \<open>10^21\<close> in
  absolute value.
\<close>

definition digit :: "nat \<Rightarrow> char" where
  "digit n = ''0123456789'' ! (n mod 10)"

fun nat_digits :: "nat \<Rightarrow> string" where
  "nat_digits n = (if n < 10 then [digit n] else nat_digits (n div 10) @ [digit n])"

declare nat_digits.simps [simp del]

definition int_toString :: "int \<Rightarrow> string" where
  "int_toString i = (if i < 0 then CHR ''-'' # nat_digits (nat (- i)) else nat_digits (nat i))"

fun num_toString :: "jsnum \<Rightarrow> string" where
  "num_toString (Fin i) = int_toString i"
| "num_toString NaN = ''NaN''"
| "num_toString PosInfinity = ''Infinity''"
| "num_toString NegInfinity = ''-Infinity''"

fun join_comma :: "string list \<Rightarrow> string" where
  "join_comma [] = []"
| "join_comma [s] = s"
| "join_comma (s # t # ss) = s @ '','' @ join_comma (t # ss)"

text \<open>
  \<open>e + ''\<close>: the string of a primitive is its literal; an array joins the strings of
  its elements with commas, \<open>undefined\<close> and \<open>null\<close> elements giving the empty string;
  a plain object gives \<open>[object Object]\<close>.
\<close>

fun js_toString :: "jsval \<Rightarrow> string" where
  "js_toString JUndefined = ''undefined''"
| "js_toString JNull = ''null''"
| "js_toString (JBool b) = (if b then ''true'' else ''false'')"
| "js_toString (JNum n) = num_toString n"
| "js_toString (JStr s) = s"
| "js_toString (JArr xs) =
     join_comma (map (\<lambda>e. if e = JUndefined \<or> e = JNull then [] else js_toString e) xs)"
| "js_toString (JObj kvs) = ''[object Object]''"

subsection \<open>Truthiness and property reads\<close>

fun truthy :: "jsval \<Rightarrow> bool" where
  "truthy JUndefined = False"
| "truthy JNull = False"
| "truthy (JBool b) = b"
| "truthy (JNum n) = (n \<noteq> Fin 0 \<and> n \<noteq> NaN)"
| "truthy (JStr s) = (s \<noteq> [])"
| "truthy (JArr xs) = True"
| "truthy (JObj kvs) = True"

text \<open>
  \<open>v.name\<close> for a value \<open>v\<close> that is neither \<open>undefined\<close> nor \<open>null\<close> (reading a
  property of those raises, which each caller below writes out). The names the sources
  read (\<open>till\<close>, \<open>splits\<close>, \<open>key\<close>, \<open>trafficType\<close>, \<open>trafficTypeName\<close>, \<open>timestamp\<close>,
  \<open>eventTypeId\<close>) are properties of no primitive and of no array, so only an object
  can hold them.
\<close>

fun getProp :: "jsval \<Rightarrow> string \<Rightarrow> jsval" where
  "getProp (JObj kvs) name = (case map_of kvs name of Some v \<Rightarrow> v | None \<Rightarrow> JUndefined)"
| "getProp v name = JUndefined"

fun isArray :: "jsval \<Rightarrow> bool" where
  "isArray (JArr xs) = True"
| "isArray v = False"

section \<open>The equal-to-set matcher\<close>

text \<open>
  The flow type \<open>whitelistObject\<close> is not among the sources; the wire schema gives the
  whitelist as an array of strings, and the record has that one field.
\<close>

record whitelistObject =
  whitelist :: "string list"

text \<open>
  lodash \<open>uniq\<close>: walk the array, keep an element when no equal element has been kept
  before, so the first occurrences stay in their order.
\<close>

fun baseUniq :: "'a list \<Rightarrow> 'a list \<Rightarrow> 'a list" where
  "baseUniq seen [] = seen"
| "baseUniq seen (x # xs) = (if x \<in> set seen then baseUniq seen xs else baseUniq (seen @ [x]) xs)"

definition uniq :: "'a list \<Rightarrow> 'a list" where
  "uniq xs = baseUniq [] xs"

text \<open>
  lodash \<open>isEqual\<close> on two arrays of strings: the same length and equal elements index
  by index.
\<close>

fun isEqual :: "string list \<Rightarrow> string list \<Rightarrow> bool" where
  "isEqual [] [] = True"
| "isEqual (x # xs) (y # ys) = (x = y \<and> isEqual xs ys)"
| "isEqual xs ys = False"

text \<open>
  \<open>value.map\<close> raises a TypeError when \<open>value\<close> is \<open>undefined\<close> or \<open>null\<close> (no
  property can be read) and when it is any other non-array (its \<open>map\<close> is not a
  function). The debug line only formats the three values and is left out.
\<close>

fun equalToSetMatcher :: "whitelistObject \<Rightarrow> jsval \<Rightarrow> error + bool" where
  "equalToSetMatcher vo (JArr es) =
     (let normalizedValue = uniq (map js_toString es)
      in Inr (isEqual normalizedValue (whitelist vo)))"
| "equalToSetMatcher vo v = Inl TypeError"

definition equalToSetMatcherContext :: "whitelistObject \<Rightarrow> (jsval \<Rightarrow> error + bool)" where
  "equalToSetMatcherContext vo = equalToSetMatcher vo"

section \<open>The split changes data source\<close>

text \<open>
  A promise that has settled: rejected with an error, or resolved with a value.
\<close>

datatype 'a settled = Rejected error | Resolved 'a

text \<open>
  What a call can touch: the module-level variable \<open>since\<close>, the console (the second
  argument of each \<open>console.log\<close> line, oldest first) and the requests handed to the
  service (the \<open>since\<close> field of each, oldest first).
\<close>

record world =
  since :: jsval
  console :: "jsval list"
  requests :: "jsval list"

text \<open>The state right after the module is loaded: \<open>let since = -1\<close>.\<close>

definition module_load :: world where
  "module_load = \<lparr>since = JNum (Fin (- 1)), console = [], requests = []\<rparr>"

text \<open>
  The service and the mutator are not among the sources and are parameters.
  \<open>splitChangesService\<close> maps the \<open>since\<close> of the request to a promise of a response;
  the inner promise is that response's \<open>json()\<close>, which rejects when the body does not
  parse. \<open>splitMutatorFactory\<close> maps the \<open>splits\<close> of the body to its product, or
  raises. A call is modelled up to the moment its promise settles; calls do not overlap.

  The destructuring \<open>let {till, splits} = json\<close> raises a TypeError on \<open>undefined\<close> and
  \<open>null\<close>, before \<open>since\<close> is assigned.
\<close>

definition splitChangesDataSource ::
  "(jsval \<Rightarrow> 'm settled) \<Rightarrow> (jsval \<Rightarrow> jsval settled settled) \<Rightarrow> world \<Rightarrow> world \<times> 'm settled" where
  "splitChangesDataSource splitMutatorFactory splitChangesService w =
     (let w1 = w\<lparr>console := console w @ [since w], requests := requests w @ [since w]\<rparr>
      in case splitChangesService (since w) of
           Rejected e \<Rightarrow> (w1, Rejected e)
         | Resolved resp \<Rightarrow>
             (case resp of
                Rejected e \<Rightarrow> (w1, Rejected e)
              | Resolved json \<Rightarrow>
                  if json = JUndefined \<or> json = JNull then (w1, Rejected TypeError)
                  else
                    let till = getProp json ''till'';
                        splits = getProp json ''splits''
                    in (w1\<lparr>since := till\<rparr>, splitMutatorFactory splits)))"

text \<open>
  The order of two cursors, for stating that one does not decrease: \<open>\<le>\<close> of two
  numbers as JavaScript compares them (every comparison with \<open>NaN\<close> is false). Values
  that are not numbers are not ordered.
\<close>

fun num_le :: "jsnum \<Rightarrow> jsnum \<Rightarrow> bool" where
  "num_le NaN b = False"
| "num_le a NaN = False"
| "num_le NegInfinity b = True"
| "num_le a PosInfinity = True"
| "num_le (Fin a) (Fin b) = (a \<le> b)"
| "num_le a b = False"

fun cursor_le :: "jsval \<Rightarrow> jsval \<Rightarrow> bool" where
  "cursor_le (JNum a) (JNum b) = num_le a b"
| "cursor_le v w = False"

text \<open>A service that answers every request with the parsed body \<open>{till, splits}\<close>.\<close>

definition respond :: "jsval \<Rightarrow> jsval \<Rightarrow> (jsval \<Rightarrow> jsval settled settled)" where
  "respond till splits = (\<lambda>request. Resolved (Resolved (JObj [(''till'', till), (''splits'', splits)])))"

text \<open>A service whose request fails, and one whose response body does not parse.\<close>

definition unreachable :: "jsval \<Rightarrow> jsval settled settled" where
  "unreachable = (\<lambda>request. Rejected NetworkError)"

definition unparsable :: "jsval \<Rightarrow> jsval settled settled" where
  "unparsable = (\<lambda>request. Resolved (Rejected SyntaxError))"

text \<open>A mutator that hands the raw splits on.\<close>

definition raw_splits :: "jsval \<Rightarrow> jsval settled" where
  "raw_splits splits = Resolved splits"

text \<open>
  A run of calls, one after the other, each with the service in effect when it is made.
\<close>

fun syncs :: "(jsval \<Rightarrow> 'm settled) \<Rightarrow> (jsval \<Rightarrow> jsval settled settled) list \<Rightarrow> world \<Rightarrow> world" where
  "syncs mut [] w = w"
| "syncs mut (svc # svcs) w = syncs mut svcs (fst (splitChangesDataSource mut svc w))"

text \<open>
  A cursor that can be compared with itself, and a service whose every body carries a
  \<open>till\<close> not below the \<open>since\<close> it was asked with.
\<close>

fun is_cursor :: "jsval \<Rightarrow> bool" where
  "is_cursor (JNum n) = (n \<noteq> NaN)"
| "is_cursor v = False"

definition obedient :: "(jsval \<Rightarrow> jsval settled settled) \<Rightarrow> bool" where
  "obedient svc \<longleftrightarrow>
     (\<forall>request json. svc request = Resolved (Resolved json) \<longrightarrow> json \<noteq> JUndefined
        \<longrightarrow> json \<noteq> JNull \<longrightarrow> cursor_le request (getProp json ''till''))"

section \<open>The analytics plugin: identities and the hit handler\<close>

text \<open>
  Modelled from the spec: \<open>utils/lang\<close> is not among the sources, and the spec leaves the
  plugin out; \<open>isString\<close> and \<open>isFinite\<close> are read as their names and the claim about
  \<open>validateIdentities\<close> say: the value is a string; the value is a number and finite.
\<close>

fun isString :: "jsval \<Rightarrow> bool" where
  "isString (JStr s) = True"
| "isString v = False"

fun isFinite :: "jsval \<Rightarrow> bool" where
  "isFinite (JNum (Fin i)) = True"
| "isFinite v = False"

text \<open>The callback of \<open>uniqueIdentities.filter\<close>.\<close>

definition validIdentity :: "jsval \<Rightarrow> bool" where
  "validIdentity identity =
     (if \<not> truthy identity then False
      else
        let maybeKey = getProp identity ''key'';
            maybeTT = getProp identity ''trafficType''
        in if \<not> isString maybeKey \<and> \<not> isFinite maybeKey then False
           else if \<not> isString maybeTT then False
           else True)"

text \<open>
  \<open>unicAsStrings\<close> is not among the sources either and is a parameter: given the
  elements of its argument it returns the elements of the array it hands back, paired
  with the elements its argument holds afterwards. \<open>validateIdentities\<close> returns its
  result paired with what the caller's value holds after the call; \<open>Array.isArray\<close> and
  \<open>filter\<close> write to no array.
\<close>

definition validateIdentities ::
  "(jsval list \<Rightarrow> jsval list \<times> jsval list) \<Rightarrow> jsval \<Rightarrow> jsval \<times> jsval" where
  "validateIdentities unicAsStrings identities =
     (case identities of
        JArr xs \<Rightarrow>
          (let (uniqueIdentities, xs') = unicAsStrings xs
           in (JArr (filter validIdentity uniqueIdentities), JArr xs'))
      | _ \<Rightarrow> (JUndefined, identities))"

text \<open>
  A deduplication that keeps first occurrences and leaves its argument alone, to run
  \<open>validateIdentities\<close> on concrete input.
\<close>

definition unic_first :: "jsval list \<Rightarrow> jsval list \<times> jsval list" where
  "unic_first xs = (uniq xs, xs)"

text \<open>
  The validators of \<open>utils/inputValidation\<close> are not among the sources and are
  parameters; each maps the validated value to what the validator returns.
\<close>

record validators =
  validateEvent :: "jsval \<Rightarrow> jsval"
  validateEventValue :: "jsval \<Rightarrow> jsval"
  validateEventProperties :: "jsval \<Rightarrow> jsval"
  validateKey :: "jsval \<Rightarrow> jsval"
  validateTrafficType :: "jsval \<Rightarrow> jsval"

text \<open>
  \<open>validateEventData\<close>, on an event data object. The destructuring of what
  \<open>validateEventProperties\<close> returns raises on \<open>undefined\<close> and \<open>null\<close>.
\<close>

definition validateEventData :: "validators \<Rightarrow> jsval \<Rightarrow> error + bool" where
  "validateEventData vs data =
     (if \<not> truthy (validateEvent vs (getProp data ''eventTypeId'')) then Inr False
      else if validateEventValue vs (getProp data ''value'') = JBool False then Inr False
      else
        let r = validateEventProperties vs (getProp data ''properties'')
        in if r = JUndefined \<or> r = JNull then Inl TypeError
           else if getProp r ''properties'' = JBool False then Inr False
           else if truthy (getProp data ''timestamp'') \<and> \<not> isFinite (getProp data ''timestamp'')
             then Inr False
           else if truthy (getProp data ''key'') \<and> validateKey vs (getProp data ''key'') = JBool False
             then Inr False
           else if truthy (getProp data ''trafficTypeName'')
                   \<and> validateTrafficType vs (getProp data ''trafficTypeName'') = JBool False
             then Inr False
           else Inr True)"

text \<open>
  Writing a property of an object: an existing property keeps its place, a new one goes
  last. \<open>Object.assign\<close> writes the source's properties in their order.
\<close>

fun setProp :: "(string \<times> jsval) list \<Rightarrow> string \<Rightarrow> jsval \<Rightarrow> (string \<times> jsval) list" where
  "setProp [] name v = [(name, v)]"
| "setProp ((k, u) # kvs) name v = (if k = name then (k, v) # kvs else (k, u) # setProp kvs name v)"

fun assign :: "(string \<times> jsval) list \<Rightarrow> (string \<times> jsval) list \<Rightarrow> (string \<times> jsval) list" where
  "assign target [] = target"
| "assign target ((k, v) # kvs) = assign (setProp target k v) kvs"

text \<open>
  The options of the plugin, merged. The filter returns a boolean; the mapper returns an
  event data object (its properties) or a falsy value, as their documentation has it.
  \<open>mapper_is_default\<close> stands for the test \<open>opts.mapper !== defaultMapper\<close>, which compares
  function identities.
\<close>

datatype mapped = Falsy | EventData "(string \<times> jsval) list"

record 'hit options =
  opts_filter :: "'hit \<Rightarrow> bool"
  opts_mapper :: "'hit \<Rightarrow> mapped"
  mapper_is_default :: bool
  opts_prefix :: jsval
  opts_identities :: jsval

text \<open>
  The constructor of \<open>SplitTracker\<close>, as far as the options go: \<open>None\<close> when it returns
  before installing the handler, otherwise the options the handler closes over. The
  warnings it logs are left out.
\<close>

definition SplitTracker ::
  "(jsval list \<Rightarrow> jsval list \<times> jsval list) \<Rightarrow> 'hit options \<Rightarrow> 'hit options option" where
  "SplitTracker unicAsStrings opts =
     (let validIdentities = fst (validateIdentities unicAsStrings (opts_identities opts))
      in if \<not> truthy validIdentities \<or> validIdentities = JArr [] then None
         else
           let opts1 = opts\<lparr>opts_identities := validIdentities\<rparr>
           in Some (if \<not> isString (opts_prefix opts1) then opts1\<lparr>opts_prefix := JUndefined\<rparr>
                    else opts1))"

text \<open>
  What the handler finds around it: the validators, the value of \<open>Date.now()\<close>, and the
  binding of the identifier \<open>event\<close> in the global scope (\<open>None\<close> when there is none). No
  scope between the branch \<open>storage.events.track(event)\<close> and the global one declares
  \<open>event\<close>: the \<open>const event\<close> of the source is local to the callback of \<open>forEach\<close> in the
  other branch.
\<close>

record environment =
  env_validators :: validators
  now :: jsval
  global_event :: "jsval option"

text \<open>
  The handler installed as \<open>sendHitTask\<close>. The result lists the arguments of the calls
  of \<open>storage.events.track\<close>, in order. The call of the original task comes first in the
  source and is left out.
\<close>

definition sendHitTask :: "environment \<Rightarrow> 'hit options \<Rightarrow> 'hit \<Rightarrow> error + jsval list" where
  "sendHitTask env opts model =
     (case (if opts_filter opts model then opts_mapper opts model else Falsy) of
        Falsy \<Rightarrow> Inr []
      | EventData eventData \<Rightarrow>
          (case (if mapper_is_default opts then Inr True
                 else validateEventData (env_validators env) (JObj eventData)) of
             Inl e \<Rightarrow> Inl e
           | Inr False \<Rightarrow> Inr []
           | Inr True \<Rightarrow>
               (let eventData1 =
                      (if truthy (opts_prefix opts)
                       then setProp eventData ''eventTypeId''
                              (JStr (js_toString (opts_prefix opts) @ ''.''
                                     @ js_toString (getProp (JObj eventData) ''eventTypeId'')))
                       else eventData);
                    eventData2 =
                      (if \<not> truthy (getProp (JObj eventData1) ''timestamp'')
                       then setProp eventData1 ''timestamp'' (now env)
                       else eventData1)
                in if truthy (getProp (JObj eventData2) ''key'')
                      \<and> truthy (getProp (JObj eventData2) ''trafficTypeName'')
                   then (case global_event env of
                           None \<Rightarrow> Inl ReferenceError
                         | Some event \<Rightarrow> Inr [event])
                   else (case opts_identities opts of
                           JArr identities \<Rightarrow>
                             Inr (map (\<lambda>identity.
                                    JObj (assign [(''key'', getProp identity ''key''),
                                                  (''trafficTypeName'', getProp identity ''trafficType'')]
                                            eventData2))
                                  identities)
                         | _ \<Rightarrow> Inl TypeError))))"

text \<open>Validators that accept everything, for running the handler on concrete input.\<close>

definition accept_all :: validators where
  "accept_all = \<lparr>validateEvent = (\<lambda>v. JBool True), validateEventValue = (\<lambda>v. v),
     validateEventProperties = (\<lambda>v. JObj [(''properties'', v), (''size'', JNum (Fin 0))]),
     validateKey = (\<lambda>v. v), validateTrafficType = (\<lambda>v. v)\<rparr>"

text \<open>
  Concrete input for the handler: a custom mapper whose event data carries a key and a
  traffic type, the options around it, and an environment in which the global \<open>event\<close>
  is bound to the given value, or unbound.
\<close>

definition keyed_event :: "(string \<times> jsval) list" where
  "keyed_event = [(''eventTypeId'', JStr ''purchase''), (''key'', JStr ''u1''),
     (''trafficTypeName'', JStr ''user'')]"

definition keyed_options :: "unit options" where
  "keyed_options = \<lparr>opts_filter = (\<lambda>hit. True), opts_mapper = (\<lambda>hit. EventData keyed_event),
     mapper_is_default = False, opts_prefix = JStr ''ga'',
     opts_identities = JArr [JObj [(''key'', JStr ''k0''), (''trafficType'', JStr ''account'')]]\<rparr>"

definition page :: "jsval option \<Rightarrow> environment" where
  "page g = \<lparr>env_validators = accept_all, now = JNum (Fin 1000), global_event = g\<rparr>"

section \<open>The public evaluation call\<close>

text \<open>
  Modelled from the spec: the evaluator and \<open>getTreatment\<close> are not among the sources.
  The records follow the spec's data model: an evaluation context, a partition, a
  condition (its matcher terms, combined by AND, each a matcher closure such as the one
  \<open>equalToSetMatcherContext\<close> returns, the attribute it reads, or the key itself, and its
  negation), a split, a rule snapshot, an evaluation result.
\<close>

record evaluationContext =
  ctx_key :: string
  bucketingKey :: "string option"
  attributes :: "string \<rightharpoonup> jsval"

record partition =
  treatment :: string
  size_pct :: nat

record matcherTerm =
  attribute :: "string option"
  matcher :: "jsval \<Rightarrow> error + bool"
  negate :: bool

record condition =
  matchers :: "matcherTerm list"
  partitions :: "partition list"

record split =
  seed :: int
  killed :: bool
  defaultTreatment :: string
  conditions :: "condition list"
  changeNumber :: int
  trafficAllocation :: nat
  trafficAllocationSeed :: int

record ruleSnapshot =
  splits :: "string \<rightharpoonup> split"
  sinceCursor :: int

record evaluationResult =
  result_treatment :: string
  label :: string
  result_changeNumber :: "int option"

text \<open>
  Modelled from the spec: the Condition Evaluator. A term applies its matcher to the
  attribute it names, or to the key, and is XORed with \<open>negate\<close>; the terms of a
  condition are combined by AND, left to right. A matcher that raises ends the
  evaluation with its error.
\<close>

definition evaluateTerm :: "evaluationContext \<Rightarrow> matcherTerm \<Rightarrow> error + bool" where
  "evaluateTerm ctx t =
     (let v = (case attribute t of
                 None \<Rightarrow> JStr (ctx_key ctx)
               | Some a \<Rightarrow> (case attributes ctx a of None \<Rightarrow> JUndefined | Some v \<Rightarrow> v))
      in case matcher t v of
           Inl e \<Rightarrow> Inl e
         | Inr b \<Rightarrow> Inr (b \<noteq> negate t))"

fun evaluateTerms :: "evaluationContext \<Rightarrow> matcherTerm list \<Rightarrow> error + bool" where
  "evaluateTerms ctx [] = Inr True"
| "evaluateTerms ctx (t # ts) =
     (case evaluateTerm ctx t of
        Inl e \<Rightarrow> Inl e
      | Inr False \<Rightarrow> Inr False
      | Inr True \<Rightarrow> evaluateTerms ctx ts)"

text \<open>
  Modelled from the spec: PARTITION_SELECT walks the partitions in order, accumulating
  their sizes, and selects the first whose cumulative bound exceeds the bucket.
\<close>

fun selectPartition :: "nat \<Rightarrow> nat \<Rightarrow> partition list \<Rightarrow> string option" where
  "selectPartition b acc [] = None"
| "selectPartition b acc (p # ps) =
     (if b < acc + size_pct p then Some (treatment p) else selectPartition b (acc + size_pct p) ps)"

text \<open>
  Modelled from the spec: CONDITION_SCAN takes the conditions in order; the first that
  matches goes to PARTITION_SELECT, and with none the default treatment is the result.
  The hash is not among the sources: \<open>bucket\<close> is a parameter. Partitions that do not
  cover the bucket are an internal error.
\<close>

fun conditionScan ::
  "(int \<Rightarrow> string \<Rightarrow> nat) \<Rightarrow> split \<Rightarrow> evaluationContext \<Rightarrow> string \<Rightarrow> condition list
     \<Rightarrow> error + evaluationResult" where
  "conditionScan bucket sp ctx bk [] =
     Inr \<lparr>result_treatment = defaultTreatment sp, label = ''default rule'',
          result_changeNumber = Some (changeNumber sp)\<rparr>"
| "conditionScan bucket sp ctx bk (c # cs) =
     (case evaluateTerms ctx (matchers c) of
        Inl e \<Rightarrow> Inl e
      | Inr False \<Rightarrow> conditionScan bucket sp ctx bk cs
      | Inr True \<Rightarrow>
          (case selectPartition (bucket (seed sp) bk) 0 (partitions c) of
             None \<Rightarrow> Inl InvariantViolation
           | Some t \<Rightarrow>
               Inr \<lparr>result_treatment = t, label = ''in condition'',
                    result_changeNumber = Some (changeNumber sp)\<rparr>))"

text \<open>
  Modelled from the spec: the Split Evaluator, from ENTRY to DONE. An absent split gives
  \<open>control\<close>, a killed one its default treatment; with a traffic allocation under 100 a
  bucket at or above it gives the default treatment.
\<close>

definition evaluate ::
  "(int \<Rightarrow> string \<Rightarrow> nat) \<Rightarrow> ruleSnapshot \<Rightarrow> string \<Rightarrow> evaluationContext
     \<Rightarrow> error + evaluationResult" where
  "evaluate bucket snapshot splitName ctx =
     (case splits snapshot splitName of
        None \<Rightarrow>
          Inr \<lparr>result_treatment = ''control'', label = ''definition not found'',
               result_changeNumber = None\<rparr>
      | Some sp \<Rightarrow>
          let bk = (case bucketingKey ctx of None \<Rightarrow> ctx_key ctx | Some k \<Rightarrow> k)
          in if killed sp then
               Inr \<lparr>result_treatment = defaultTreatment sp, label = ''killed'',
                    result_changeNumber = Some (changeNumber sp)\<rparr>
             else if trafficAllocation sp < 100
                     \<and> trafficAllocation sp \<le> bucket (trafficAllocationSeed sp) bk then
               Inr \<lparr>result_treatment = defaultTreatment sp, label = ''not in traffic allocation'',
                    result_changeNumber = Some (changeNumber sp)\<rparr>
             else conditionScan bucket sp ctx bk (conditions sp))"

text \<open>
  Modelled from the spec: \<open>getTreatment(key, bucketingKey?, splitName, attributes?)\<close>
  returns a treatment and never raises: \<open>control\<close> on an uninitialized cache (\<open>None\<close>)
  and on any internal error.
\<close>

definition getTreatment ::
  "(int \<Rightarrow> string \<Rightarrow> nat) \<Rightarrow> ruleSnapshot option \<Rightarrow> string \<Rightarrow> string option \<Rightarrow> string
     \<Rightarrow> (string \<rightharpoonup> jsval) \<Rightarrow> string" where
  "getTreatment bucket cache k bk splitName attrs =
     (case cache of
        None \<Rightarrow> ''control''
      | Some snapshot \<Rightarrow>
          (case evaluate bucket snapshot splitName
                  \<lparr>ctx_key = k, bucketingKey = bk, attributes = attrs\<rparr> of
             Inl e \<Rightarrow> ''control''
           | Inr r \<Rightarrow> result_treatment r))"

text \<open>
  Concrete input for the evaluation: a split whose one condition compares the attribute
  \<open>plans\<close> with a whitelist by the equal-to-set matcher of the sources, and a snapshot
  that holds it under the name \<open>demo\<close>.
\<close>

definition demo_split :: split where
  "demo_split = \<lparr>seed = 7, killed = False, defaultTreatment = ''off'',
     conditions = [\<lparr>matchers = [\<lparr>attribute = Some ''plans'',
                                    matcher = equalToSetMatcherContext \<lparr>whitelist = [''a'', ''b'']\<rparr>,
                                    negate = False\<rparr>],
                     partitions = [\<lparr>treatment = ''on'', size_pct = 100\<rparr>]\<rparr>],
     changeNumber = 12, trafficAllocation = 100, trafficAllocationSeed = 3\<rparr>"

definition demo_snapshot :: ruleSnapshot where
  "demo_snapshot = \<lparr>splits = [''demo'' \<mapsto> demo_split], sinceCursor = 12\<rparr>"

section \<open>Properties of the matcher\<close>

lemma isEqual_iff: "isEqual xs ys \<longleftrightarrow> xs = ys"
  by (induction xs ys rule: isEqual.induct) auto

lemma set_baseUniq: "set (baseUniq seen xs) = set seen \<union> set xs"
  by (induction xs arbitrary: seen) auto

lemma distinct_baseUniq: "distinct seen \<Longrightarrow> distinct (baseUniq seen xs)"
  by (induction xs arbitrary: seen) auto

lemma set_uniq: "set (uniq xs) = set xs"
  by (simp add: uniq_def set_baseUniq)

lemma distinct_uniq: "distinct (uniq xs)"
  by (simp add: uniq_def distinct_baseUniq)

lemma equalToSetMatcher_sound:
  "equalToSetMatcher vo (JArr es) = Inr True \<Longrightarrow> set (map js_toString es) = set (whitelist vo)"
  using set_uniq [of "map js_toString es"] by (simp add: isEqual_iff Let_def)

text \<open>
  C1. The claim: the matcher returns true exactly when the string-coerced, deduplicated
  candidate has the same members as the whitelist, in any order; with whitelist
  \<open>["a","b"]\<close> and value \<open>["b","a","a"]\<close> it returns true. The code compares the
  deduplicated array with the whitelist index by index, so on that very input it
  returns false.
\<close>

theorem equalToSetMatcher_order_sensitive:
  "equalToSetMatcherContext \<lparr>whitelist = [''a'', ''b'']\<rparr> (JArr [JStr ''b'', JStr ''a'', JStr ''a''])
     = Inr False"
  by (simp add: equalToSetMatcherContext_def uniq_def)

text \<open>
  C2, as the claim states it: on a missing or \<open>null\<close> value the matcher returns false and
  does not raise. It raises.
\<close>

theorem equalToSetMatcher_null_raises:
  "equalToSetMatcherContext \<lparr>whitelist = [''a'', ''b'']\<rparr> JNull = Inl TypeError
   \<and> equalToSetMatcherContext \<lparr>whitelist = [''a'', ''b'']\<rparr> JNull \<noteq> Inr False"
  by (simp add: equalToSetMatcherContext_def)

text \<open>
  C2, amended: on every array the matcher returns a boolean and does not raise; on a
  missing value, on \<open>null\<close> and on every other non-array it raises a TypeError.
\<close>

theorem equalToSetMatcher_total_on_arrays:
  "(isArray v \<longrightarrow> (\<exists>b. equalToSetMatcherContext vo v = Inr b))
   \<and> (\<not> isArray v \<longrightarrow> equalToSetMatcherContext vo v = Inl TypeError)"
  by (cases v) (simp_all add: equalToSetMatcherContext_def Let_def)

theorem equalToSetMatcher_total_on_arrays_witness:
  "isArray (JArr [JStr ''a'', JNum (Fin 7)])
   \<and> (\<exists>b. equalToSetMatcherContext \<lparr>whitelist = [''a'', ''7'']\<rparr> (JArr [JStr ''a'', JNum (Fin 7)]) = Inr b)
   \<and> \<not> isArray JUndefined
   \<and> equalToSetMatcherContext \<lparr>whitelist = [''a'', ''7'']\<rparr> JUndefined = Inl TypeError"
  using equalToSetMatcher_total_on_arrays [of "JArr [JStr ''a'', JNum (Fin 7)]" "\<lparr>whitelist = [''a'', ''7'']\<rparr>"]
    equalToSetMatcher_total_on_arrays [of JUndefined "\<lparr>whitelist = [''a'', ''7'']\<rparr>"]
  by simp

section \<open>Properties of the data source\<close>

lemma splitChangesDataSource_rejected:
  "svc (since w) = Rejected e \<Longrightarrow>
   splitChangesDataSource mut svc w =
     (w\<lparr>console := console w @ [since w], requests := requests w @ [since w]\<rparr>, Rejected e)"
  by (simp add: splitChangesDataSource_def)

lemma splitChangesDataSource_unparsed:
  "svc (since w) = Resolved (Rejected e) \<Longrightarrow>
   splitChangesDataSource mut svc w =
     (w\<lparr>console := console w @ [since w], requests := requests w @ [since w]\<rparr>, Rejected e)"
  by (simp add: splitChangesDataSource_def)

lemma splitChangesDataSource_body:
  "svc (since w) = Resolved (Resolved json) \<Longrightarrow> json \<noteq> JUndefined \<Longrightarrow> json \<noteq> JNull \<Longrightarrow>
   splitChangesDataSource mut svc w =
     (w\<lparr>console := console w @ [since w], requests := requests w @ [since w],
        since := getProp json ''till''\<rparr>,
      mut (getProp json ''splits''))"
  by (simp add: splitChangesDataSource_def Let_def)

lemma splitChangesDataSource_requests:
  "requests (fst (splitChangesDataSource mut svc w)) = requests w @ [since w]"
  by (simp add: splitChangesDataSource_def Let_def split: settled.splits)

lemma splitChangesDataSource_console:
  "console (fst (splitChangesDataSource mut svc w)) = console w @ [since w]"
  by (simp add: splitChangesDataSource_def Let_def split: settled.splits)

lemma splitChangesDataSource_resolvedD:
  assumes "splitChangesDataSource mut svc w = (w', Resolved m)"
  shows "\<exists>json. svc (since w) = Resolved (Resolved json) \<and> json \<noteq> JUndefined \<and> json \<noteq> JNull
           \<and> since w' = getProp json ''till'' \<and> mut (getProp json ''splits'') = Resolved m"
  using assms
  by (auto simp: splitChangesDataSource_def Let_def split: settled.splits if_splits)

text \<open>
  C3, as the claim states it: whatever the fetched responses, the cursor after a call
  that resolves is not below the cursor before it. Two calls after the module is loaded,
  the first answered with \<open>till = 5\<close> and the second with \<open>till = 3\<close>, both resolve and
  take the cursor from 5 down to 3.
\<close>

theorem since_decreases_counterexample:
  "snd (splitChangesDataSource raw_splits (respond (JNum (Fin 5)) (JArr [])) module_load)
     = Resolved (JArr [])
   \<and> snd (splitChangesDataSource raw_splits (respond (JNum (Fin 3)) (JArr []))
        (fst (splitChangesDataSource raw_splits (respond (JNum (Fin 5)) (JArr [])) module_load)))
     = Resolved (JArr [])
   \<and> since (fst (splitChangesDataSource raw_splits (respond (JNum (Fin 5)) (JArr [])) module_load))
     = JNum (Fin 5)
   \<and> since (fst (splitChangesDataSource raw_splits (respond (JNum (Fin 3)) (JArr []))
        (fst (splitChangesDataSource raw_splits (respond (JNum (Fin 5)) (JArr [])) module_load))))
     = JNum (Fin 3)
   \<and> \<not> cursor_le (JNum (Fin 5)) (JNum (Fin 3))"
  by (simp add: splitChangesDataSource_def respond_def module_load_def raw_splits_def)

text \<open>
  C3, amended: after each call that resolves, the cursor is the \<open>till\<close> of the fetched
  response; so it is not below its value before the call whenever that \<open>till\<close> is not
  below the \<open>since\<close> the request was made with.
\<close>

theorem since_nondecreasing_if_till_not_below:
  assumes "splitChangesDataSource mut svc w = (w', Resolved m)"
    and "svc (since w) = Resolved (Resolved json)"
    and "cursor_le (since w) (getProp json ''till'')"
  shows "since w' = getProp json ''till'' \<and> cursor_le (since w) (since w')"
proof -
  from splitChangesDataSource_resolvedD [OF assms(1)]
  obtain j where j: "svc (since w) = Resolved (Resolved j)"
    and till: "since w' = getProp j ''till''"
    by auto
  from j assms(2) have "j = json" by simp
  with till assms(3) show ?thesis by simp
qed

theorem since_nondecreasing_if_till_not_below_witness:
  "splitChangesDataSource raw_splits (respond (JNum (Fin 5)) (JArr [])) module_load
     = (\<lparr>since = JNum (Fin 5), console = [JNum (Fin (- 1))], requests = [JNum (Fin (- 1))]\<rparr>,
        Resolved (JArr []))
   \<and> cursor_le (since module_load) (JNum (Fin 5))
   \<and> cursor_le (since module_load)
        (since \<lparr>since = JNum (Fin 5), console = [JNum (Fin (- 1))], requests = [JNum (Fin (- 1))]\<rparr>)"
proof -
  let ?body = "JObj [(''till'', JNum (Fin 5)), (''splits'', JArr [])]"
  have call: "splitChangesDataSource raw_splits (respond (JNum (Fin 5)) (JArr [])) module_load
     = (\<lparr>since = JNum (Fin 5), console = [JNum (Fin (- 1))], requests = [JNum (Fin (- 1))]\<rparr>,
        Resolved (JArr []))"
    by (simp add: splitChangesDataSource_def respond_def module_load_def raw_splits_def)
  have body: "respond (JNum (Fin 5)) (JArr []) (since module_load) = Resolved (Resolved ?body)"
    by (simp add: respond_def)
  have le: "cursor_le (since module_load) (getProp ?body ''till'')"
    by (simp add: module_load_def)
  from since_nondecreasing_if_till_not_below [where svc = "respond (JNum (Fin 5)) (JArr [])"
      and w = module_load and json = ?body and mut = raw_splits, OF call body le] call le
  show ?thesis by simp
qed

text \<open>
  C4. When the request promise rejects, or the body does not parse, the call rejects with
  that error (the mutator is not applied, no split map is produced), the cursor keeps its
  value, and the next call, whatever its collaborators, sends the same \<open>since\<close> again.
\<close>

theorem fetch_failure_keeps_since:
  assumes "svc (since w) = Rejected e \<or> svc (since w) = Resolved (Rejected e)"
  shows "snd (splitChangesDataSource mut svc w) = Rejected e
       \<and> since (fst (splitChangesDataSource mut svc w)) = since w
       \<and> requests (fst (splitChangesDataSource mut' svc' (fst (splitChangesDataSource mut svc w))))
           = requests w @ [since w, since w]"
proof -
  from assms have call: "splitChangesDataSource mut svc w =
     (w\<lparr>console := console w @ [since w], requests := requests w @ [since w]\<rparr>, Rejected e)"
    using splitChangesDataSource_rejected [where svc = svc and w = w and e = e and mut = mut]
      splitChangesDataSource_unparsed [where svc = svc and w = w and e = e and mut = mut]
    by blast
  then show ?thesis
    by (simp add: splitChangesDataSource_requests)
qed

theorem fetch_failure_keeps_since_witness:
  "(unreachable (since module_load) = Rejected NetworkError
      \<or> unreachable (since module_load) = Resolved (Rejected NetworkError))
   \<and> snd (splitChangesDataSource raw_splits unreachable module_load) = Rejected NetworkError
   \<and> since (fst (splitChangesDataSource raw_splits unreachable module_load)) = JNum (Fin (- 1))
   \<and> requests (fst (splitChangesDataSource raw_splits unparsable
        (fst (splitChangesDataSource raw_splits unreachable module_load))))
     = [JNum (Fin (- 1)), JNum (Fin (- 1))]"
proof -
  have h: "unreachable (since module_load) = Rejected NetworkError
      \<or> unreachable (since module_load) = Resolved (Rejected NetworkError)"
    by (simp add: unreachable_def)
  from fetch_failure_keeps_since [where svc = unreachable and w = module_load
      and e = NetworkError and mut = raw_splits and mut' = raw_splits and svc' = unparsable] h
  show ?thesis by (simp add: module_load_def)
qed

text \<open>
  C5, as the claim states it: when the fetched \<open>till\<close> equals the current \<open>since\<close>, no
  split map is produced. Right after the module is loaded \<open>since\<close> is -1; a response
  with \<open>till = -1\<close> and one split resolves with the mutator's product for that split.
\<close>

theorem till_equal_since_still_mutates:
  "getProp (JObj [(''till'', JNum (Fin (- 1))), (''splits'', JArr [JObj [(''name'', JStr ''demo'')]])])
      ''till'' = since module_load
   \<and> snd (splitChangesDataSource raw_splits
        (respond (JNum (Fin (- 1))) (JArr [JObj [(''name'', JStr ''demo'')]])) module_load)
     = Resolved (JArr [JObj [(''name'', JStr ''demo'')]])"
  by (simp add: splitChangesDataSource_def respond_def module_load_def raw_splits_def)

text \<open>
  C5, amended: when a successful fetch returns a body whose \<open>till\<close> equals the current
  \<open>since\<close>, the call still settles with the Split Mutator applied to the body's
  \<open>splits\<close>, as for any other \<open>till\<close>; the cursor keeps its value.
\<close>

theorem till_equal_since_applies_mutator:
  assumes "svc (since w) = Resolved (Resolved json)"
    and "json \<noteq> JUndefined" and "json \<noteq> JNull"
    and "getProp json ''till'' = since w"
  shows "snd (splitChangesDataSource mut svc w) = mut (getProp json ''splits'')
       \<and> since (fst (splitChangesDataSource mut svc w)) = since w"
  using splitChangesDataSource_body [where svc = svc and w = w and json = json and mut = mut] assms
  by simp

theorem till_equal_since_applies_mutator_witness:
  "respond (JNum (Fin (- 1))) (JArr [JStr ''s'']) (since module_load)
     = Resolved (Resolved (JObj [(''till'', JNum (Fin (- 1))), (''splits'', JArr [JStr ''s''])]))
   \<and> getProp (JObj [(''till'', JNum (Fin (- 1))), (''splits'', JArr [JStr ''s''])]) ''till''
     = since module_load
   \<and> snd (splitChangesDataSource raw_splits (respond (JNum (Fin (- 1))) (JArr [JStr ''s'']))
        module_load) = Resolved (JArr [JStr ''s''])
   \<and> since (fst (splitChangesDataSource raw_splits (respond (JNum (Fin (- 1))) (JArr [JStr ''s'']))
        module_load)) = JNum (Fin (- 1))"
proof -
  let ?body = "JObj [(''till'', JNum (Fin (- 1))), (''splits'', JArr [JStr ''s''])]"
  have h1: "respond (JNum (Fin (- 1))) (JArr [JStr ''s'']) (since module_load)
     = Resolved (Resolved ?body)"
    by (simp add: respond_def)
  have h2: "?body \<noteq> JUndefined" and h3: "?body \<noteq> JNull" by simp_all
  have h4: "getProp ?body ''till'' = since module_load" by (simp add: module_load_def)
  from till_equal_since_applies_mutator [where svc = "respond (JNum (Fin (- 1))) (JArr [JStr ''s''])"
      and w = module_load and json = ?body and mut = raw_splits] h1 h2 h3 h4
  show ?thesis by (simp add: module_load_def raw_splits_def)
qed

text \<open>
  C6. After a successful fetch (the request resolved and its body parsed to a value that
  can be destructured), the call settles with the Split Mutator applied to the body's
  \<open>splits\<close>, \<open>since\<close> is the body's \<open>till\<close>, and the next call, whatever its
  collaborators, sends that \<open>till\<close> as its \<open>since\<close>.
\<close>

theorem success_sets_since_to_till:
  assumes "svc (since w) = Resolved (Resolved json)"
    and "json \<noteq> JUndefined" and "json \<noteq> JNull"
  shows "snd (splitChangesDataSource mut svc w) = mut (getProp json ''splits'')
       \<and> since (fst (splitChangesDataSource mut svc w)) = getProp json ''till''
       \<and> requests (fst (splitChangesDataSource mut' svc' (fst (splitChangesDataSource mut svc w))))
           = requests w @ [since w, getProp json ''till'']"
  using splitChangesDataSource_body [where svc = svc and w = w and json = json and mut = mut] assms
  by (simp add: splitChangesDataSource_requests)

theorem success_sets_since_to_till_witness:
  "respond (JNum (Fin 12)) (JArr [JStr ''s'']) (since module_load)
     = Resolved (Resolved (JObj [(''till'', JNum (Fin 12)), (''splits'', JArr [JStr ''s''])]))
   \<and> snd (splitChangesDataSource raw_splits (respond (JNum (Fin 12)) (JArr [JStr ''s'']))
        module_load) = Resolved (JArr [JStr ''s''])
   \<and> since (fst (splitChangesDataSource raw_splits (respond (JNum (Fin 12)) (JArr [JStr ''s'']))
        module_load)) = JNum (Fin 12)
   \<and> requests (fst (splitChangesDataSource raw_splits unreachable
        (fst (splitChangesDataSource raw_splits (respond (JNum (Fin 12)) (JArr [JStr ''s'']))
           module_load))))
     = [JNum (Fin (- 1)), JNum (Fin 12)]"
proof -
  let ?body = "JObj [(''till'', JNum (Fin 12)), (''splits'', JArr [JStr ''s''])]"
  have h1: "respond (JNum (Fin 12)) (JArr [JStr ''s'']) (since module_load)
     = Resolved (Resolved ?body)"
    by (simp add: respond_def)
  have h2: "?body \<noteq> JUndefined" and h3: "?body \<noteq> JNull" by simp_all
  from success_sets_since_to_till [where svc = "respond (JNum (Fin 12)) (JArr [JStr ''s''])"
      and w = module_load and json = ?body and mut = raw_splits and mut' = raw_splits
      and svc' = unreachable] h1 h2 h3
  show ?thesis by (simp add: module_load_def raw_splits_def)
qed

text \<open>
  C8. There is one cursor, the module-level \<open>since\<close>, and it starts at -1: the first
  call after the module is loaded logs and requests \<open>since = -1\<close>, whatever the
  collaborators; and of any two calls in a row, made by whichever callers with whichever
  collaborators, the second logs and requests the \<open>till\<close> that the first one fetched,
  when the first one's fetch succeeded.
\<close>

theorem since_is_shared_and_starts_at_minus_one:
  "since module_load = JNum (Fin (- 1))
   \<and> requests (fst (splitChangesDataSource mut svc module_load)) = [JNum (Fin (- 1))]
   \<and> console (fst (splitChangesDataSource mut svc module_load)) = [JNum (Fin (- 1))]
   \<and> (svc (since w) = Resolved (Resolved json) \<and> json \<noteq> JUndefined \<and> json \<noteq> JNull \<longrightarrow>
        requests (fst (splitChangesDataSource mut' svc' (fst (splitChangesDataSource mut svc w))))
          = requests w @ [since w, getProp json ''till'']
      \<and> console (fst (splitChangesDataSource mut' svc' (fst (splitChangesDataSource mut svc w))))
          = console w @ [since w, getProp json ''till''])"
proof -
  have first: "requests (fst (splitChangesDataSource mut svc module_load)) = [JNum (Fin (- 1))]"
    "console (fst (splitChangesDataSource mut svc module_load)) = [JNum (Fin (- 1))]"
    by (simp_all add: splitChangesDataSource_requests splitChangesDataSource_console module_load_def)
  have second: "requests (fst (splitChangesDataSource mut' svc' (fst (splitChangesDataSource mut svc w))))
          = requests w @ [since w, getProp json ''till'']
      \<and> console (fst (splitChangesDataSource mut' svc' (fst (splitChangesDataSource mut svc w))))
          = console w @ [since w, getProp json ''till'']"
    if "svc (since w) = Resolved (Resolved json)" "json \<noteq> JUndefined" "json \<noteq> JNull"
    using splitChangesDataSource_body [where svc = svc and w = w and json = json and mut = mut] that
    by (simp add: splitChangesDataSource_requests splitChangesDataSource_console)
  from first second show ?thesis by (simp add: module_load_def)
qed

theorem since_is_shared_and_starts_at_minus_one_witness:
  "respond (JNum (Fin 40)) JNull (since module_load)
     = Resolved (Resolved (JObj [(''till'', JNum (Fin 40)), (''splits'', JNull)]))
   \<and> requests (fst (splitChangesDataSource raw_splits (respond (JNum (Fin 40)) JNull) module_load))
     = [JNum (Fin (- 1))]
   \<and> requests (fst (splitChangesDataSource raw_splits unparsable
        (fst (splitChangesDataSource raw_splits (respond (JNum (Fin 40)) JNull) module_load))))
     = [JNum (Fin (- 1)), JNum (Fin 40)]
   \<and> console (fst (splitChangesDataSource raw_splits unparsable
        (fst (splitChangesDataSource raw_splits (respond (JNum (Fin 40)) JNull) module_load))))
     = [JNum (Fin (- 1)), JNum (Fin 40)]"
proof -
  let ?body = "JObj [(''till'', JNum (Fin 40)), (''splits'', JNull)]"
  have h1: "respond (JNum (Fin 40)) JNull (since module_load) = Resolved (Resolved ?body)"
    by (simp add: respond_def)
  from since_is_shared_and_starts_at_minus_one [where svc = "respond (JNum (Fin 40)) JNull"
      and w = module_load and json = ?body and mut = raw_splits and mut' = raw_splits
      and svc' = unparsable] h1
  show ?thesis by (simp add: module_load_def)
qed

text \<open>
  Over a whole run: with services that never answer with a \<open>till\<close> below the \<open>since\<close>
  of the request, the cursor at the end is not below the cursor at the start, whichever
  calls failed.
\<close>

lemma num_le_refl: "n \<noteq> NaN \<Longrightarrow> num_le n n"
  by (cases n) simp_all

lemma num_le_trans: "num_le a b \<Longrightarrow> num_le b c \<Longrightarrow> num_le a c"
  by (cases a; cases b; cases c) simp_all

lemma cursor_le_refl: "is_cursor v \<Longrightarrow> cursor_le v v"
  by (cases v) (simp_all add: num_le_refl)

lemma cursor_le_trans: "cursor_le u v \<Longrightarrow> cursor_le v w \<Longrightarrow> cursor_le u w"
  by (cases u; cases v; cases w) (auto intro: num_le_trans)

lemma cursor_le_is_cursor: "cursor_le u v \<Longrightarrow> is_cursor v"
proof (cases u; cases v)
  fix a b
  assume "cursor_le u v" "u = JNum a" "v = JNum b"
  then show "is_cursor v" by (cases a; cases b) simp_all
qed simp_all

lemma splitChangesDataSource_step:
  assumes "obedient svc" and "is_cursor (since w)"
  shows "cursor_le (since w) (since (fst (splitChangesDataSource mut svc w)))"
proof (cases "\<exists>json. svc (since w) = Resolved (Resolved json) \<and> json \<noteq> JUndefined \<and> json \<noteq> JNull")
  case True
  then obtain json where j: "svc (since w) = Resolved (Resolved json)"
    "json \<noteq> JUndefined" "json \<noteq> JNull" by blast
  with assms(1) have "cursor_le (since w) (getProp json ''till'')"
    unfolding obedient_def by blast
  with splitChangesDataSource_body [where svc = svc and w = w and json = json and mut = mut] j
  show ?thesis by simp
next
  case False
  then have "since (fst (splitChangesDataSource mut svc w)) = since w"
    by (auto simp: splitChangesDataSource_def Let_def split: settled.splits)
  with assms(2) show ?thesis by (simp add: cursor_le_refl)
qed

lemma syncs_nondecreasing:
  "\<forall>svc \<in> set svcs. obedient svc \<Longrightarrow> is_cursor (since w) \<Longrightarrow>
   cursor_le (since w) (since (syncs mut svcs w))"
proof (induction svcs arbitrary: w)
  case Nil
  then show ?case by (simp add: cursor_le_refl)
next
  case (Cons svc svcs)
  let ?w1 = "fst (splitChangesDataSource mut svc w)"
  from Cons.prems have step: "cursor_le (since w) (since ?w1)"
    by (simp add: splitChangesDataSource_step)
  then have "is_cursor (since ?w1)" by (rule cursor_le_is_cursor)
  with Cons have "cursor_le (since ?w1) (since (syncs mut svcs ?w1))" by simp
  with step show ?case by (auto intro: cursor_le_trans)
qed

section \<open>Properties of the plugin\<close>

lemma validIdentity_iff:
  "validIdentity e \<longleftrightarrow>
     truthy e \<and> (isString (getProp e ''key'') \<or> isFinite (getProp e ''key''))
     \<and> isString (getProp e ''trafficType'')"
  by (auto simp: validIdentity_def Let_def)

lemma map_of_setProp: "map_of (setProp kvs name v) = (map_of kvs)(name \<mapsto> v)"
  by (induction kvs name v rule: setProp.induct) auto

lemma getProp_setProp:
  "getProp (JObj (setProp kvs name v)) k = (if k = name then v else getProp (JObj kvs) k)"
  by (simp add: map_of_setProp)

text \<open>
  Whenever the handler reaches the branch for event data with a key and a traffic type,
  what it passes to \<open>storage.events.track\<close> is the global \<open>event\<close>, whatever the event
  data is.
\<close>

lemma sendHitTask_keyed:
  assumes "opts_filter opts model"
    and "opts_mapper opts model = EventData d"
    and "mapper_is_default opts \<or> validateEventData (env_validators env) (JObj d) = Inr True"
    and "truthy (getProp (JObj d) ''key'')"
    and "truthy (getProp (JObj d) ''trafficTypeName'')"
  shows "sendHitTask env opts model =
           (case global_event env of None \<Rightarrow> Inl ReferenceError | Some event \<Rightarrow> Inr [event])"
proof -
  have check: "(if mapper_is_default opts then Inr True
                else validateEventData (env_validators env) (JObj d)) = Inr True"
    using assms(3) by auto
  have keep: "getProp (JObj (setProp d ''eventTypeId'' v)) ''key'' = getProp (JObj d) ''key''"
    "getProp (JObj (setProp d ''eventTypeId'' v)) ''trafficTypeName'' = getProp (JObj d) ''trafficTypeName''"
    "getProp (JObj (setProp d' ''timestamp'' u)) ''key'' = getProp (JObj d') ''key''"
    "getProp (JObj (setProp d' ''timestamp'' u)) ''trafficTypeName'' = getProp (JObj d') ''trafficTypeName''"
    for v u d'
    unfolding getProp_setProp by simp_all
  show ?thesis
    unfolding sendHitTask_def Let_def using assms(1,2,4,5) check
    by (simp add: keep del: getProp.simps)
qed

text \<open>
  C9. On a value that is not an array \<open>validateIdentities\<close> returns \<open>undefined\<close>. On an
  array, provided \<open>unicAsStrings\<close> hands back a duplicate-free array and leaves its
  argument as it was, it returns a duplicate-free array whose every element is truthy,
  has a \<open>key\<close> that is a string or a finite number and a \<open>trafficType\<close> that is a
  string; the input array holds afterwards what it held before.
\<close>

theorem validateIdentities_valid_and_unique:
  "(\<not> isArray identities \<longrightarrow>
      validateIdentities unicAsStrings identities = (JUndefined, identities))
   \<and> (\<forall>xs. identities = JArr xs \<and> distinct (fst (unicAsStrings xs)) \<and> snd (unicAsStrings xs) = xs \<longrightarrow>
        (\<exists>ys. validateIdentities unicAsStrings identities = (JArr ys, identities)
           \<and> distinct ys
           \<and> (\<forall>e \<in> set ys. truthy e
                 \<and> (isString (getProp e ''key'') \<or> isFinite (getProp e ''key''))
                 \<and> isString (getProp e ''trafficType''))))"
proof (intro conjI impI allI)
  assume "\<not> isArray identities"
  then show "validateIdentities unicAsStrings identities = (JUndefined, identities)"
    by (cases identities) (simp_all add: validateIdentities_def)
next
  fix xs
  assume h: "identities = JArr xs \<and> distinct (fst (unicAsStrings xs)) \<and> snd (unicAsStrings xs) = xs"
  let ?ys = "filter validIdentity (fst (unicAsStrings xs))"
  from h have "validateIdentities unicAsStrings identities = (JArr ?ys, identities)"
    by (simp add: validateIdentities_def split_beta)
  moreover from h have "distinct ?ys" by simp
  moreover have "\<forall>e \<in> set ?ys. truthy e
                 \<and> (isString (getProp e ''key'') \<or> isFinite (getProp e ''key''))
                 \<and> isString (getProp e ''trafficType'')"
    using validIdentity_iff by simp
  ultimately show "\<exists>ys. validateIdentities unicAsStrings identities = (JArr ys, identities)
           \<and> distinct ys
           \<and> (\<forall>e \<in> set ys. truthy e
                 \<and> (isString (getProp e ''key'') \<or> isFinite (getProp e ''key''))
                 \<and> isString (getProp e ''trafficType''))"
    by blast
qed

theorem validateIdentities_valid_and_unique_witness:
  "\<not> isArray (JStr ''u1'')
   \<and> validateIdentities unic_first (JStr ''u1'') = (JUndefined, JStr ''u1'')
   \<and> distinct (fst (unic_first
        [JObj [(''key'', JStr ''u1''), (''trafficType'', JStr ''user'')],
         JObj [(''key'', JStr ''u1''), (''trafficType'', JStr ''user'')],
         JNull,
         JObj [(''key'', JNum NaN), (''trafficType'', JStr ''user'')],
         JObj [(''key'', JNum (Fin 7)), (''trafficType'', JStr ''account'')]]))
   \<and> validateIdentities unic_first (JArr
        [JObj [(''key'', JStr ''u1''), (''trafficType'', JStr ''user'')],
         JObj [(''key'', JStr ''u1''), (''trafficType'', JStr ''user'')],
         JNull,
         JObj [(''key'', JNum NaN), (''trafficType'', JStr ''user'')],
         JObj [(''key'', JNum (Fin 7)), (''trafficType'', JStr ''account'')]])
     = (JArr [JObj [(''key'', JStr ''u1''), (''trafficType'', JStr ''user'')],
              JObj [(''key'', JNum (Fin 7)), (''trafficType'', JStr ''account'')]],
        JArr [JObj [(''key'', JStr ''u1''), (''trafficType'', JStr ''user'')],
              JObj [(''key'', JStr ''u1''), (''trafficType'', JStr ''user'')],
              JNull,
              JObj [(''key'', JNum NaN), (''trafficType'', JStr ''user'')],
              JObj [(''key'', JNum (Fin 7)), (''trafficType'', JStr ''account'')]])"
proof -
  let ?xs = "[JObj [(''key'', JStr ''u1''), (''trafficType'', JStr ''user'')],
         JObj [(''key'', JStr ''u1''), (''trafficType'', JStr ''user'')],
         JNull,
         JObj [(''key'', JNum NaN), (''trafficType'', JStr ''user'')],
         JObj [(''key'', JNum (Fin 7)), (''trafficType'', JStr ''account'')]]"
  have d: "distinct (fst (unic_first ?xs))" and u: "snd (unic_first ?xs) = ?xs"
    by (simp_all add: unic_first_def distinct_uniq)
  have run: "validateIdentities unic_first (JArr ?xs)
     = (JArr [JObj [(''key'', JStr ''u1''), (''trafficType'', JStr ''user'')],
              JObj [(''key'', JNum (Fin 7)), (''trafficType'', JStr ''account'')]], JArr ?xs)"
    by (simp add: validateIdentities_def unic_first_def uniq_def validIdentity_def)
  from validateIdentities_valid_and_unique [of "JStr ''u1''" unic_first]
    validateIdentities_valid_and_unique [of "JArr ?xs" unic_first] d u run
  show ?thesis by simp
qed

text \<open>The constructor installs the handler with the options \<open>keyed_options\<close> as they are.\<close>

lemma SplitTracker_keyed_options: "SplitTracker unic_first keyed_options = Some keyed_options"
  by (simp add: SplitTracker_def validateIdentities_def unic_first_def uniq_def validIdentity_def
      keyed_options_def)

text \<open>
  C10. The claim: for a hit that passes the filter and whose event data holds a key and a
  traffic type, the handler stores exactly that event and does not raise. On such a hit
  (the options are the ones the constructor installs) the event to store would be the
  mapped data with the prefixed type and the timestamp; the handler passes the global
  \<open>event\<close> instead, here \<open>undefined\<close>, and raises a ReferenceError where no such
  global exists.
\<close>

theorem sendHitTask_tracks_global_event:
  "opts_filter keyed_options ()
   \<and> opts_mapper keyed_options () = EventData keyed_event
   \<and> truthy (getProp (JObj keyed_event) ''key'')
   \<and> truthy (getProp (JObj keyed_event) ''trafficTypeName'')
   \<and> sendHitTask (page (Some JUndefined)) keyed_options () = Inr [JUndefined]
   \<and> sendHitTask (page (Some JUndefined)) keyed_options ()
       \<noteq> Inr [JObj [(''eventTypeId'', JStr ''ga.purchase''), (''key'', JStr ''u1''),
                     (''trafficTypeName'', JStr ''user''), (''timestamp'', JNum (Fin 1000))]]
   \<and> sendHitTask (page None) keyed_options () = Inl ReferenceError"
  by (simp add: keyed_options_def keyed_event_def page_def sendHitTask_def validateEventData_def
      accept_all_def)

section \<open>Properties of the public evaluation call\<close>

text \<open>
  C7. \<open>getTreatment\<close> is a total function into the treatments, so it returns a string on
  every key, bucketing key, split name and attribute map; that string is \<open>control\<close> when
  the cache is uninitialized, when the snapshot holds no split of that name, and when the
  evaluation ends in an internal error.
\<close>

theorem getTreatment_control:
  "(cache = None \<longrightarrow> getTreatment bucket cache k bk splitName attrs = ''control'')
   \<and> (\<forall>snapshot. cache = Some snapshot \<and> splits snapshot splitName = None \<longrightarrow>
         getTreatment bucket cache k bk splitName attrs = ''control'')
   \<and> (\<forall>snapshot e. cache = Some snapshot
          \<and> evaluate bucket snapshot splitName \<lparr>ctx_key = k, bucketingKey = bk, attributes = attrs\<rparr>
              = Inl e \<longrightarrow>
         getTreatment bucket cache k bk splitName attrs = ''control'')"
  by (simp add: getTreatment_def evaluate_def)

theorem getTreatment_control_witness:
  "getTreatment (\<lambda>s key. 30) None ''k1'' None ''demo'' Map.empty = ''control''
   \<and> splits demo_snapshot ''other'' = None
   \<and> getTreatment (\<lambda>s key. 30) (Some demo_snapshot) ''k1'' None ''other'' Map.empty = ''control''
   \<and> evaluate (\<lambda>s key. 30) demo_snapshot ''demo''
        \<lparr>ctx_key = ''k1'', bucketingKey = None, attributes = Map.empty\<rparr> = Inl TypeError
   \<and> getTreatment (\<lambda>s key. 30) (Some demo_snapshot) ''k1'' None ''demo'' Map.empty = ''control''"
proof -
  have absent: "splits demo_snapshot ''other'' = None"
    by (simp add: demo_snapshot_def)
  have raises: "evaluate (\<lambda>s key. 30) demo_snapshot ''demo''
        \<lparr>ctx_key = ''k1'', bucketingKey = None, attributes = Map.empty\<rparr> = Inl TypeError"
    by (simp add: evaluate_def demo_snapshot_def demo_split_def evaluateTerm_def
        equalToSetMatcherContext_def)
  from getTreatment_control [of None "\<lambda>s key. 30" "''k1''" None "''demo''" Map.empty]
    getTreatment_control [of "Some demo_snapshot" "\<lambda>s key. 30" "''k1''" None "''other''" Map.empty]
    getTreatment_control [of "Some demo_snapshot" "\<lambda>s key. 30" "''k1''" None "''demo''" Map.empty]
    absent raises
  show ?thesis by simp
qed

end
